theory Spec2Isabelle
  imports Main "HOL-Library.Word"
begin

section \<open>Libraries the service is linked with\<close>

text \<open>
  The service calls four libraries whose code is not part of the repository:
  \<^verbatim>\<open>golang.org/x/crypto/bcrypt\<close>, \<^verbatim>\<open>github.com/golang-jwt/jwt/v5\<close>, \<^verbatim>\<open>github.com/google/uuid\<close>
  and \<^verbatim>\<open>strconv\<close>. What they compute by cryptography, by random draws or by text
  encoding is a parameter of the model, collected in the record \<open>externals\<close>; their
  control flow around these primitives (a length guard, the bytes of a password that
  reach the cipher, a comparison of instants) is written out in the sections below.

  Functions keep the names of the source. Where packages share a name, the receiver is
  put in front: \<open>UserHandler_CreateUser\<close>, \<open>UserUseCase_CreateUser\<close>, \<open>Repo_Create\<close>
  (the PostgreSQL repository) and \<open>Queries_CreateUser\<close> (the querier). The clock is read
  once per operation: \<open>now\<close> stands for every \<^verbatim>\<open>time.Now()\<close> of the call.
\<close>

text \<open>Instants are nanoseconds since the Unix epoch; a \<^verbatim>\<open>time.Duration\<close> is a number of
  nanoseconds.\<close>

type_synonym time = int

datatype bcrypt_error =
    ErrMismatchedHashAndPassword
  | ErrHashTooShort
  | ErrPasswordTooLong
  | InvalidCostError nat
  | BcryptFailure string

text \<open>The struct \<^verbatim>\<open>hashed\<close> of the bcrypt package: the encoded digest, the encoded salt, the
  cost and the two version bytes of a hash.\<close>

record hashed =
  hashed_hash :: string
  hashed_salt :: string
  hashed_cost :: nat
  hashed_major :: char
  hashed_minor :: char

text \<open>Why the JWT library rejects a token before it looks at the time claims: the text
  does not decode, the signing method is not usable, or the signature does not verify.\<close>

datatype parse_failure = Malformed | Unverifiable | SignatureInvalid

text \<open>
  \<^verbatim>\<open>jwt.RegisteredClaims\<close>, restricted to the three time claims this service sets; each is
  optional in the library. \<^verbatim>\<open>Claims\<close> (package auth) embeds it and adds the subject's id,
  email and role.
\<close>

record RegisteredClaims =
  ExpiresAt :: "time option"
  IssuedAt :: "time option"
  NotBefore :: "time option"

record Claims = RegisteredClaims +
  UserID :: string
  claims_Email :: string
  claims_Role :: string

text \<open>
  \<^descr> \<open>rand_salt\<close>: the salt \<^verbatim>\<open>newFromPassword\<close> draws from \<^verbatim>\<open>rand.Reader\<close>, encoded; the draw
    can fail.
  \<^descr> \<open>bcrypt_cipher key cost salt\<close>: the Blowfish computation of the function \<^verbatim>\<open>bcrypt\<close>, on
    the bytes the key schedule reads; the encoded digest, or an error (a salt that does
    not decode).
  \<^descr> \<open>hashed_Hash p\<close>: the method \<^verbatim>\<open>Hash\<close>, which lays out the version, the cost, the salt
    and the digest as the text of the hash.
  \<^descr> \<open>hashed_decode hash\<close>: what \<^verbatim>\<open>newFromHash\<close> does after its length guard: read the
    version, the cost, the salt and the digest back from the text.
  \<^descr> \<open>jwt_SignedString key claims\<close>: \<^verbatim>\<open>jwt.NewWithClaims(jwt.SigningMethodHS256, claims).SignedString(key)\<close>.
  \<^descr> \<open>jwt_decode_verify token key\<close>: the steps of \<^verbatim>\<open>ParseWithClaims\<close> that come before the
    validation of the time claims: decode the three segments and verify the signature
    with the key.
  \<^descr> \<open>uuid_Parse\<close>: \<^verbatim>\<open>uuid.Parse\<close>, giving the identifier in canonical form.
  \<^descr> \<open>uuid_New\<close>: \<^verbatim>\<open>uuid.New().String()\<close>.
  \<^descr> \<open>gen_random_uuid n\<close>: the identifier the database draws for its \<open>n\<close>-th insertion.
  \<^descr> \<open>strconv_Atoi\<close>: \<^verbatim>\<open>strconv.Atoi\<close>.
\<close>

record externals =
  rand_salt :: "bcrypt_error + string"
  bcrypt_cipher :: "string \<Rightarrow> nat \<Rightarrow> string \<Rightarrow> bcrypt_error + string"
  hashed_Hash :: "hashed \<Rightarrow> string"
  hashed_decode :: "string \<Rightarrow> bcrypt_error + hashed"
  jwt_SignedString :: "string \<Rightarrow> Claims \<Rightarrow> string + string"
  jwt_decode_verify :: "string \<Rightarrow> string \<Rightarrow> parse_failure + Claims"
  uuid_Parse :: "string \<Rightarrow> string option"
  uuid_New :: string
  gen_random_uuid :: "nat \<Rightarrow> string"
  strconv_Atoi :: "string \<Rightarrow> int option"

section \<open>Hashing with bcrypt (package bcrypt)\<close>

definition DefaultCost :: nat where "DefaultCost = 10"

definition majorVersion :: char where "majorVersion = CHR ''2''"
definition minorVersion :: char where "minorVersion = CHR ''a''"
definition minHashSize :: nat where "minHashSize = 59"

text \<open>
  The password reaches the cipher through the Blowfish key schedule alone. The key is
  the password followed by a NUL byte (\<^verbatim>\<open>expensiveBlowfishSetup\<close>), and the schedule reads
  18 words of 4 bytes from it, starting over at its end: 72 bytes in all.
\<close>

definition key_stream :: "string \<Rightarrow> string" where
  "key_stream password =
     (let ckey = password @ [CHR 0x00] in map (\<lambda>i. ckey ! (i mod length ckey)) [0..<72])"

definition bcrypt :: "externals \<Rightarrow> string \<Rightarrow> nat \<Rightarrow> string \<Rightarrow> bcrypt_error + string" where
  "bcrypt ext password cost salt = bcrypt_cipher ext (key_stream password) cost salt"




text \<open>\<^verbatim>\<open>newFromHash\<close> refuses a hash of fewer than 59 bytes before it reads it.\<close>

definition newFromHash :: "externals \<Rightarrow> string \<Rightarrow> bcrypt_error + hashed" where
  "newFromHash ext hashedSecret =
     (if length hashedSecret < minHashSize then Inl ErrHashTooShort
      else hashed_decode ext hashedSecret)"

text \<open>\<^verbatim>\<open>bcrypt.CompareHashAndPassword\<close> computes the digest of the password under the salt
  and the cost of the hash, and compares the two hashes as texts; \<open>None\<close> is the nil
  error.\<close>

definition CompareHashAndPassword :: "externals \<Rightarrow> string \<Rightarrow> string \<Rightarrow> bcrypt_error option" where
  "CompareHashAndPassword ext hashedPassword password =
     (case newFromHash ext hashedPassword of
        Inl err \<Rightarrow> Some err
      | Inr p \<Rightarrow>
          (case bcrypt ext password (hashed_cost p) (hashed_salt p) of
             Inl err \<Rightarrow> Some err
           | Inr otherHash \<Rightarrow>
               (let otherP = p\<lparr>hashed_hash := otherHash\<rparr> in
                if hashed_Hash ext p = hashed_Hash ext otherP then None
                else Some ErrMismatchedHashAndPassword)))"

section \<open>Errors\<close>

text \<open>
  The sentinel errors of the packages \<^verbatim>\<open>user\<close> and \<^verbatim>\<open>auth\<close> are constructors of their
  own. \<open>ErrorNew\<close> is an error made on the spot with \<^verbatim>\<open>errors.New\<close>, \<open>Errorf\<close> is
  \<^verbatim>\<open>fmt.Errorf("...: %w", err)\<close>, which wraps its cause, \<open>Bcrypt\<close> is an error of the
  bcrypt package and \<open>External\<close> an error value of another library (the SQL driver, the
  JWT library, uuid). The code compares errors with the sentinels only.
\<close>

datatype error =
    ErrInvalidRole
  | ErrUserNotFound
  | ErrUserAlreadyExists
  | ErrInvalidPassword
  | ErrUserDeactivated
  | ErrInvalidToken
  | ErrExpiredToken
  | ErrNoRows
  | ErrorNew string
  | Errorf string error
  | Bcrypt bcrypt_error
  | External string

text \<open>\<^verbatim>\<open>errors.Is(err, target)\<close>: equality with the target anywhere along the chain of wrapped causes.\<close>

fun errors_Is :: "error \<Rightarrow> error \<Rightarrow> bool" where
  "errors_Is (Errorf msg cause) target = (Errorf msg cause = target \<or> errors_Is cause target)"
| "errors_Is err target = (err = target)"

section \<open>JSON values and HTTP responses\<close>

datatype json =
    JString string
  | JBool bool
  | JNumber int
  | JTime time
  | JArray "json list"
  | JObject "(string \<times> json) list"

text \<open>\<^verbatim>\<open>c.JSON(status, body)\<close> writes a status and a JSON body, \<^verbatim>\<open>c.Status(status)\<close> a status alone.\<close>

datatype response =
    JSON nat json
  | Status nat

definition StatusOK :: nat where "StatusOK = 200"
definition StatusNoContent :: nat where "StatusNoContent = 204"
definition StatusBadRequest :: nat where "StatusBadRequest = 400"
definition StatusUnauthorized :: nat where "StatusUnauthorized = 401"
definition StatusNotFound :: nat where "StatusNotFound = 404"
definition StatusConflict :: nat where "StatusConflict = 409"
definition StatusInternalServerError :: nat where "StatusInternalServerError = 500"

text \<open>The two-key bodies \<^verbatim>\<open>gin.H{"error": e, "message": m}\<close> and \<^verbatim>\<open>ErrorResponse{Error: e, Message: m}\<close>
  serialise to the same object.\<close>

definition ErrorResponse :: "string \<Rightarrow> string \<Rightarrow> json" where
  "ErrorResponse err message = JObject [(''error'', JString err), (''message'', JString message)]"

text \<open>The value stored under a key of a JSON object, if the key is there.\<close>

fun json_field :: "string \<Rightarrow> json \<Rightarrow> json option" where
  "json_field k (JObject kvs) = map_of kvs k"
| "json_field k _ = None"

section \<open>The user entity (package user)\<close>

type_synonym Role = string

definition RoleAdmin :: Role where "RoleAdmin = ''admin''"

record User =
  ID :: string
  Email :: string
  Password :: string
  Name :: string
  Role :: Role
  IsActive :: bool
  CreatedAt :: time
  UpdatedAt :: time

text \<open>The zero \<^verbatim>\<open>time.Time\<close> is 1 January of year 1, 00:00 UTC.\<close>

definition zero_time :: time where
  "zero_time = - 62135596800 * 1000000000"



definition CheckPassword :: "externals \<Rightarrow> User \<Rightarrow> string \<Rightarrow> bool" where
  "CheckPassword ext u password =
     (let err = CompareHashAndPassword ext (Password u) password in err = None)"






definition Activate :: "time \<Rightarrow> User \<Rightarrow> User" where
  "Activate now u = u\<lparr>IsActive := True, UpdatedAt := now\<rparr>"

definition Deactivate :: "time \<Rightarrow> User \<Rightarrow> User" where
  "Deactivate now u = u\<lparr>IsActive := False, UpdatedAt := now\<rparr>"

definition IsAdmin :: "User \<Rightarrow> bool" where
  "IsAdmin u = (Role u = RoleAdmin)"

definition IsActiveUser :: "User \<Rightarrow> bool" where
  "IsActiveUser u = IsActive u"

text \<open>
  \<^verbatim>\<open>encoding/json\<close> on a \<^verbatim>\<open>User\<close>: one member per field, in the order of the struct and
  under the name of its tag; the field tagged \<^verbatim>\<open>json:"-"\<close> is left out.
\<close>

definition User_json :: "User \<Rightarrow> json" where
  "User_json u = JObject
     [(''id'', JString (ID u)),
      (''email'', JString (Email u)),
      (''name'', JString (Name u)),
      (''role'', JString (Role u)),
      (''is_active'', JBool (IsActive u)),
      (''created_at'', JTime (CreatedAt u)),
      (''updated_at'', JTime (UpdatedAt u))]"

section \<open>The token service (package auth)\<close>

text \<open>
  An error value of the JWT library is the list of the library's sentinel errors it
  wraps; \<^verbatim>\<open>errors.Is\<close> on it is membership.
\<close>

datatype jwt_error =
    ErrTokenMalformed
  | ErrTokenUnverifiable
  | ErrTokenSignatureInvalid
  | ErrTokenInvalidClaims
  | ErrTokenExpired
  | ErrTokenNotValidYet

definition jwt_errors_Is :: "jwt_error list \<Rightarrow> jwt_error \<Rightarrow> bool" where
  "jwt_errors_Is err target = (target \<in> set err)"

definition second :: int where
  "second = 1000000000"

text \<open>\<^verbatim>\<open>jwt.NewNumericDate(t)\<close> truncates the instant to the library's \<^verbatim>\<open>TimePrecision\<close>, one
  second: a numeric date of a token counts whole seconds.\<close>

definition NewNumericDate :: "time \<Rightarrow> time option" where
  "NewNumericDate t = Some (t - t mod second)"

text \<open>
  The library's validator with its default options, on the claims of this service: the
  expiry is checked with \<^verbatim>\<open>now.Before(exp)\<close>, the not-before time with
  \<^verbatim>\<open>!now.Before(nbf)\<close>, each only when the claim is present; the issued-at time is not
  checked, and there is no leeway. The failures are collected.
\<close>

definition verifyExpiresAt :: "Claims \<Rightarrow> time \<Rightarrow> jwt_error list" where
  "verifyExpiresAt claims now =
     (case ExpiresAt claims of
        None \<Rightarrow> []
      | Some exp \<Rightarrow> if now < exp then [] else [ErrTokenExpired])"

definition verifyNotBefore :: "Claims \<Rightarrow> time \<Rightarrow> jwt_error list" where
  "verifyNotBefore claims now =
     (case NotBefore claims of
        None \<Rightarrow> []
      | Some nbf \<Rightarrow> if \<not> now < nbf then [] else [ErrTokenNotValidYet])"

definition Validator_Validate :: "Claims \<Rightarrow> time \<Rightarrow> jwt_error list" where
  "Validator_Validate claims now = verifyExpiresAt claims now @ verifyNotBefore claims now"

record jwt_Token =
  token_Claims :: Claims
  Valid :: bool

text \<open>\<^verbatim>\<open>jwt.ParseWithClaims\<close> with the key function of \<^verbatim>\<open>ValidateToken\<close>, which hands out
  the secret whatever the token says: decode and verify the signature first, validate
  the time claims after.\<close>

definition ParseWithClaims :: "externals \<Rightarrow> string \<Rightarrow> string \<Rightarrow> time \<Rightarrow> jwt_error list + jwt_Token" where
  "ParseWithClaims ext tokenString key now =
     (case jwt_decode_verify ext tokenString key of
        Inl Malformed \<Rightarrow> Inl [ErrTokenMalformed]
      | Inl Unverifiable \<Rightarrow> Inl [ErrTokenUnverifiable]
      | Inl SignatureInvalid \<Rightarrow> Inl [ErrTokenSignatureInvalid]
      | Inr claims \<Rightarrow>
          (let errs = Validator_Validate claims now in
           if errs = [] then Inr \<lparr>token_Claims = claims, Valid = True\<rparr>
           else Inl (ErrTokenInvalidClaims # errs)))"

record jwtService =
  secretKey :: string
  expiresIn :: int

definition NewJWTService :: "string \<Rightarrow> int \<Rightarrow> jwtService" where
  "NewJWTService key ttl = \<lparr>secretKey = key, expiresIn = ttl\<rparr>"

text \<open>The claims \<^verbatim>\<open>GenerateToken\<close> builds: the subject, and the three time claims from the
  clock and the configured lifetime.\<close>

definition newClaims :: "jwtService \<Rightarrow> time \<Rightarrow> string \<Rightarrow> string \<Rightarrow> string \<Rightarrow> Claims" where
  "newClaims j now userID email role =
     \<lparr>ExpiresAt = NewNumericDate (now + expiresIn j),
      IssuedAt = NewNumericDate now,
      NotBefore = NewNumericDate now,
      UserID = userID, claims_Email = email, claims_Role = role\<rparr>"

definition GenerateToken :: "externals \<Rightarrow> jwtService \<Rightarrow> time \<Rightarrow> string \<Rightarrow> string \<Rightarrow> string \<Rightarrow> error + string" where
  "GenerateToken ext j now userID email role =
     (let claims = newClaims j now userID email role in
      case jwt_SignedString ext (secretKey j) claims of
        Inl msg \<Rightarrow> Inl (External msg)
      | Inr token \<Rightarrow> Inr token)"

definition ValidateToken :: "externals \<Rightarrow> jwtService \<Rightarrow> time \<Rightarrow> string \<Rightarrow> error + Claims" where
  "ValidateToken ext j now tokenString =
     (case ParseWithClaims ext tokenString (secretKey j) now of
        Inl err \<Rightarrow>
          if jwt_errors_Is err ErrTokenExpired then Inl ErrExpiredToken
          else Inl ErrInvalidToken
      | Inr token \<Rightarrow>
          if Valid token then Inr (token_Claims token)
          else Inl ErrInvalidToken)"

section \<open>The users table (sql/migrations and sql/queries)\<close>

text \<open>
  The querier (package database, generated from \<^verbatim>\<open>sql/queries/user.sql\<close>) is not among the
  sources; its statements and the table they run on are. The table is the list of its
  rows in insertion order. \<open>online\<close> is false when the database cannot be reached, and
  then every statement fails; \<open>serial\<close> counts the insertions, to index the identifiers
  the database draws. The precision of the timestamp columns is not modelled.
\<close>

record db_User =
  db_ID :: string
  db_Email :: string
  db_Password :: string
  db_Name :: string
  db_Role :: string
  db_IsActive :: bool
  db_CreatedAt :: time
  db_UpdatedAt :: time

record database =
  rows :: "db_User list"
  online :: bool
  serial :: nat




definition unreachable :: error where
  "unreachable = External ''database is not reachable''"




text \<open>Modelled from the spec: the querier's \<^verbatim>\<open>GetUserByEmail\<close>, missing from the sources,
  which finds the account with an email or reports that there is none. Its statement is
  \<^verbatim>\<open>SELECT * FROM users WHERE email = $1\<close>, one row expected.\<close>

definition Queries_GetUserByEmail :: "string \<Rightarrow> database \<Rightarrow> error + db_User" where
  "Queries_GetUserByEmail email db =
     (if \<not> online db then Inl unreachable
      else (case find (\<lambda>r. db_Email r = email) (rows db) of
              None \<Rightarrow> Inl ErrNoRows
            | Some r \<Rightarrow> Inr r))"





section \<open>The repository (PostgresUserRepository)\<close>

definition zero_User :: User where
  "zero_User = \<lparr>ID = [], Email = [], Password = [], Name = [], Role = [],
                IsActive = False, CreatedAt = zero_time, UpdatedAt = zero_time\<rparr>"

definition mapDBUserToDomainUser :: "db_User \<Rightarrow> User option \<Rightarrow> User" where
  "mapDBUserToDomainUser dbUser domainUser =
     (let domainUser = (case domainUser of None \<Rightarrow> zero_User | Some u \<Rightarrow> u) in
      domainUser\<lparr>ID := db_ID dbUser, Email := db_Email dbUser, Password := db_Password dbUser,
                 Name := db_Name dbUser, Role := db_Role dbUser, IsActive := db_IsActive dbUser,
                 CreatedAt := db_CreatedAt dbUser, UpdatedAt := db_UpdatedAt dbUser\<rparr>)"



definition Repo_GetByEmail :: "string \<Rightarrow> database \<Rightarrow> error + User" where
  "Repo_GetByEmail email db =
     (case Queries_GetUserByEmail email db of
        Inl err \<Rightarrow>
          if err = ErrNoRows then Inl ErrUserNotFound
          else Inl (Errorf ''failed to get user by email'' err)
      | Inr dbUser \<Rightarrow> Inr (mapDBUserToDomainUser dbUser None))"






section \<open>The use cases (package usecase)\<close>





record AuthenticateUserInput =
  auth_Email :: string
  auth_Password :: string

record AuthenticateUserOutput =
  out_User :: User
  Token :: string









definition AuthenticateUser :: "externals \<Rightarrow> jwtService \<Rightarrow> time \<Rightarrow> AuthenticateUserInput \<Rightarrow> database \<Rightarrow> error + AuthenticateUserOutput" where
  "AuthenticateUser ext j now input db =
     (case Repo_GetByEmail (auth_Email input) db of
        Inl err \<Rightarrow>
          if err = ErrUserNotFound then Inl ErrInvalidPassword
          else Inl (Errorf ''failed to get user by email'' err)
      | Inr userEntity \<Rightarrow>
          if \<not> IsActiveUser userEntity then Inl ErrUserDeactivated
          else if \<not> CheckPassword ext userEntity (auth_Password input) then Inl ErrInvalidPassword
          else
            (case GenerateToken ext j now (ID userEntity) (Email userEntity) (Role userEntity) of
               Inl err \<Rightarrow> Inl (Errorf ''failed to generate token'' err)
             | Inr token \<Rightarrow> Inr \<lparr>out_User = userEntity, Token = token\<rparr>))"

section \<open>The HTTP handlers (package handlers)\<close>



record LoginRequest =
  login_Email :: string
  login_Password :: string




definition mapErrorToHTTPStatus :: "error \<Rightarrow> nat \<times> string" where
  "mapErrorToHTTPStatus err =
     (if errors_Is err ErrInvalidRole then (StatusBadRequest, ''Invalid role'')
      else if errors_Is err ErrUserNotFound then (StatusNotFound, ''User not found'')
      else if errors_Is err ErrUserAlreadyExists then (StatusConflict, ''User already exists'')
      else if errors_Is err ErrInvalidPassword then (StatusUnauthorized, ''Invalid password'')
      else if errors_Is err ErrUserDeactivated then
        (StatusUnauthorized, ''User account is deactivated'')
      else (StatusInternalServerError, ''Internal server error''))"

text \<open>The response every handler writes for a use case that failed.\<close>

definition error_reply :: "string \<Rightarrow> error \<Rightarrow> response" where
  "error_reply what err =
     (case mapErrorToHTTPStatus err of
        (status, message) \<Rightarrow> JSON status (ErrorResponse what message))"








definition Login :: "externals \<Rightarrow> jwtService \<Rightarrow> time \<Rightarrow> string + LoginRequest \<Rightarrow> database \<Rightarrow> response" where
  "Login ext j now bound db =
     (case bound of
        Inl msg \<Rightarrow> JSON StatusBadRequest (ErrorResponse ''Invalid request data'' msg)
      | Inr req \<Rightarrow>
          (case AuthenticateUser ext j now
                  \<lparr>auth_Email = login_Email req, auth_Password = login_Password req\<rparr> db of
             Inl err \<Rightarrow> error_reply ''Authentication failed'' err
           | Inr output \<Rightarrow> JSON StatusOK (User_json (out_User output))))"

section \<open>Request context and middleware (package middleware)\<close>











section \<open>Concrete inputs\<close>

text \<open>
  A toy implementation of the libraries, to run the model on concrete inputs. It keeps
  the shape of the real ones and replaces the cryptography: the digest of a password
  is its key stream, so that two passwords have the same digest exactly when the key
  schedule reads the same bytes from them; a hash is laid out as version, cost, salt of
  22 bytes and digest; a token is the claims and the key written field by field; and
  every text is an identifier.
\<close>

definition fake_salt :: string where
  "fake_salt = ''saltsaltsaltsaltsaltsa''"

definition fake_cipher :: "string \<Rightarrow> nat \<Rightarrow> string \<Rightarrow> bcrypt_error + string" where
  "fake_cipher key cost salt = Inr key"

definition fake_Hash :: "hashed \<Rightarrow> string" where
  "fake_Hash p =
     CHR ''$'' # hashed_major p # hashed_minor p # ''$10$'' @ hashed_salt p @ hashed_hash p"

definition fake_hashed_decode :: "string \<Rightarrow> bcrypt_error + hashed" where
  "fake_hashed_decode h =
     (case h of
        d # major # minor # rest \<Rightarrow>
          if d = CHR ''$'' then
            Inr \<lparr>hashed_hash = drop 26 rest, hashed_salt = take 22 (drop 4 rest),
                 hashed_cost = 10, hashed_major = major, hashed_minor = minor\<rparr>
          else Inl (BcryptFailure ''invalid hash prefix'')
      | _ \<Rightarrow> Inl ErrHashTooShort)"

text \<open>A field of a token is written behind its length, as so many \<^verbatim>\<open>#\<close> and a colon; an
  instant is written as its sign and its binary digits, lowest first.\<close>

function bits :: "int \<Rightarrow> string" where
  "bits n = (if n \<le> 0 then [] else (if odd n then CHR ''1'' else CHR ''0'') # bits (n div 2))"
  by pat_completeness auto

termination bits
  by (relation "measure nat") auto

fun unbits :: "string \<Rightarrow> int" where
  "unbits [] = 0"
| "unbits (c # cs) = (if c = CHR ''1'' then 1 else 0) + 2 * unbits cs"

definition fake_time :: "time option \<Rightarrow> string" where
  "fake_time t =
     (case t of
        None \<Rightarrow> ''n''
      | Some i \<Rightarrow> (if i < 0 then CHR ''-'' else CHR ''+'') # bits \<bar>i\<bar>)"

definition fake_untime :: "string \<Rightarrow> time option option" where
  "fake_untime s =
     (case s of
        [] \<Rightarrow> None
      | c # cs \<Rightarrow>
          if c = CHR ''n'' \<and> cs = [] then Some None
          else if c = CHR ''+'' then Some (Some (unbits cs))
          else if c = CHR ''-'' then Some (Some (- unbits cs))
          else None)"

definition fake_field :: "string \<Rightarrow> string" where
  "fake_field s = replicate (length s) (CHR ''#'') @ CHR '':'' # s"

definition fake_unfield :: "string \<Rightarrow> (string \<times> string) option" where
  "fake_unfield t =
     (let n = length (takeWhile (\<lambda>c. c = CHR ''#'') t) in
      case drop n t of
        [] \<Rightarrow> None
      | c # rest \<Rightarrow>
          if c = CHR '':'' \<and> n \<le> length rest then Some (take n rest, drop n rest)
          else None)"

fun fake_fields :: "nat \<Rightarrow> string \<Rightarrow> string list option" where
  "fake_fields 0 t = (if t = [] then Some [] else None)"
| "fake_fields (Suc n) t =
     (case fake_unfield t of
        None \<Rightarrow> None
      | Some (f, rest) \<Rightarrow> map_option ((#) f) (fake_fields n rest))"

text \<open>The token of the claims under a key: the six claims, then the key in the place of
  the signature.\<close>

definition fake_sign :: "string \<Rightarrow> Claims \<Rightarrow> string" where
  "fake_sign key c =
     concat (map fake_field
       [fake_time (ExpiresAt c), fake_time (IssuedAt c), fake_time (NotBefore c),
        UserID c, claims_Email c, claims_Role c, key])"

definition fake_decode_verify :: "string \<Rightarrow> string \<Rightarrow> parse_failure + Claims" where
  "fake_decode_verify token key =
     (case fake_fields 7 token of
        Some [e, i, n, uid, mail, role, k] \<Rightarrow>
          (case (fake_untime e, fake_untime i, fake_untime n) of
             (Some e', Some i', Some n') \<Rightarrow>
               if k = key then
                 Inr \<lparr>ExpiresAt = e', IssuedAt = i', NotBefore = n',
                      UserID = uid, claims_Email = mail, claims_Role = role\<rparr>
               else Inl SignatureInvalid
           | _ \<Rightarrow> Inl Malformed)
      | _ \<Rightarrow> Inl Malformed)"

definition fake_ext :: externals where
  "fake_ext =
     \<lparr>rand_salt = Inr fake_salt,
      bcrypt_cipher = fake_cipher,
      hashed_Hash = fake_Hash,
      hashed_decode = fake_hashed_decode,
      jwt_SignedString = (\<lambda>key claims. Inr (fake_sign key claims)),
      jwt_decode_verify = fake_decode_verify,
      uuid_Parse = (\<lambda>s. Some s),
      uuid_New = ''uuid-new'',
      gen_random_uuid = (\<lambda>n. ''uuid-'' @ replicate n (CHR ''i'')),
      strconv_Atoi = (\<lambda>s. if s = ''0'' then Some 0 else if s = ''10'' then Some 10 else None)\<rparr>"

text \<open>What the toy \<^verbatim>\<open>newFromPassword\<close> yields for a password under a salt, and the hash
  text \<^verbatim>\<open>GenerateFromPassword\<close> makes of it.\<close>

definition fake_hashed :: "string \<Rightarrow> string \<Rightarrow> hashed" where
  "fake_hashed salt password =
     \<lparr>hashed_hash = key_stream password, hashed_salt = salt,
      hashed_cost = DefaultCost, hashed_major = majorVersion, hashed_minor = minorVersion\<rparr>"

definition fake_hash :: "string \<Rightarrow> string" where
  "fake_hash password = fake_Hash (fake_hashed fake_salt password)"

text \<open>A service whose tokens live for a day, and one whose tokens live for a tenth of a
  second; the instant 10.5 s.\<close>

definition day_service :: jwtService where
  "day_service = NewJWTService ''test-secret'' (86400 * second)"

definition brief_service :: jwtService where
  "brief_service = NewJWTService ''test-secret'' 100000000"

definition half_past_ten :: time where
  "half_past_ten = 10500000000"

text \<open>Alice, and a table that holds her row.\<close>

definition alice :: User where
  "alice = \<lparr>ID = ''uuid-'', Email = ''alice@example.com'', Password = fake_hash ''secret1'',
            Name = ''Alice'', Role = ''user'', IsActive = True,
            CreatedAt = 1000, UpdatedAt = 1000\<rparr>"

definition row_of :: "User \<Rightarrow> db_User" where
  "row_of u = \<lparr>db_ID = ID u, db_Email = Email u, db_Password = Password u, db_Name = Name u,
               db_Role = Role u, db_IsActive = IsActive u, db_CreatedAt = CreatedAt u,
               db_UpdatedAt = UpdatedAt u\<rparr>"

definition table_of :: "User list \<Rightarrow> database" where
  "table_of us = \<lparr>rows = map row_of us, online = True, serial = length us\<rparr>"

definition alice_claims :: "jwtService \<Rightarrow> time \<Rightarrow> Claims" where
  "alice_claims j now = newClaims j now (ID alice) (Email alice) (Role alice)"

definition alice_token :: "jwtService \<Rightarrow> time \<Rightarrow> string" where
  "alice_token j now = fake_sign (secretKey j) (alice_claims j now)"

text \<open>Alice after her account has been deactivated, and Alice with a stored hash that is
  not a bcrypt hash.\<close>

definition deactivated_alice :: User where
  "deactivated_alice = Deactivate 2000 alice"


definition login_input :: "string \<Rightarrow> string \<Rightarrow> AuthenticateUserInput" where
  "login_input email password = \<lparr>auth_Email = email, auth_Password = password\<rparr>"


definition alice_login :: LoginRequest where
  "alice_login = \<lparr>login_Email = ''alice@example.com'', login_Password = ''secret1''\<rparr>"








section \<open>Accounts that differ only in the password hash\<close>







section \<open>Splitting a header\<close>









section \<open>Numeric dates\<close>



section \<open>Looking up an account\<close>

lemma Repo_GetByEmail_absent:
  "online db \<Longrightarrow> email \<notin> set (map db_Email (rows db)) \<Longrightarrow>
     Repo_GetByEmail email db = Inl ErrUserNotFound"
proof -
  assume on: "online db" and absent: "email \<notin> set (map db_Email (rows db))"
  have "find (\<lambda>r. db_Email r = email) (rows db) = None"
    using absent by (auto simp: find_None_iff)
  with on show ?thesis
    by (simp add: Repo_GetByEmail_def Queries_GetUserByEmail_def)
qed

lemma mapDB_row_of: "mapDBUserToDomainUser (row_of u) d = u"
  by (cases u) (simp add: mapDBUserToDomainUser_def row_of_def zero_User_def split: option.splits)

lemma Repo_GetByEmail_single: "Repo_GetByEmail (Email u) (table_of [u]) = Inr u"
  by (simp add: Repo_GetByEmail_def Queries_GetUserByEmail_def table_of_def mapDB_row_of)
     (simp add: row_of_def)





section \<open>The toy libraries\<close>

lemma unbits_bits: "0 \<le> n \<Longrightarrow> unbits (bits n) = n"
proof (induction n rule: bits.induct)
  case (1 n)
  show ?case
  proof (cases "n \<le> 0")
    case True with 1 show ?thesis by (subst bits.simps) simp
  next
    case False
    with 1 have "unbits (bits (n div 2)) = n div 2" by (simp del: bits.simps)
    with False show ?thesis by (subst bits.simps) (auto elim: oddE simp del: bits.simps)
  qed
qed

lemma fake_untime_time: "fake_untime (fake_time t) = Some t"
  by (cases t) (auto simp: fake_untime_def fake_time_def unbits_bits simp del: bits.simps)

lemma takeWhile_hashes:
  "c \<noteq> CHR ''#'' \<Longrightarrow>
     takeWhile (\<lambda>c. c = CHR ''#'') (replicate n (CHR ''#'') @ c # rest) = replicate n (CHR ''#'')"
  by (induction n) simp_all

lemma fake_unfield_field: "fake_unfield (fake_field s @ rest) = Some (s, rest)"
  by (simp add: fake_unfield_def fake_field_def takeWhile_hashes)

lemma fake_unfield_last: "fake_unfield (fake_field s) = Some (s, [])"
  using fake_unfield_field [of s "[]"] by simp

text \<open>The toy token decodes to the claims that were signed, under the key they were
  signed with and under no other.\<close>

lemma fake_decode_verify_sign:
  "fake_decode_verify (fake_sign k c) k' = (if k = k' then Inr c else Inl SignatureInvalid)"
  by (simp add: fake_decode_verify_def fake_sign_def eval_nat_numeral fake_unfield_field
      fake_unfield_last fake_untime_time)

lemma fake_SignedString: "jwt_SignedString fake_ext k c = Inr (fake_sign k c)"
  by (simp add: fake_ext_def)

lemma fake_jwt_decode_verify:
  "jwt_decode_verify fake_ext (fake_sign k c) k' = (if k = k' then Inr c else Inl SignatureInvalid)"
  by (simp add: fake_ext_def fake_decode_verify_sign)

lemma fake_GenerateToken:
  "GenerateToken fake_ext j now userID email role
     = Inr (fake_sign (secretKey j) (newClaims j now userID email role))"
  by (simp add: GenerateToken_def fake_SignedString)

lemma length_key_stream: "length (key_stream p) = 72"
  by (simp add: key_stream_def Let_def)



lemma key_stream_take:
  "72 \<le> length p \<Longrightarrow> key_stream (take 72 p @ r) = key_stream (take 72 p)"
  by (auto simp: key_stream_def Let_def nth_append)

text \<open>The toy hash text is read back as it was laid out; the toy \<^verbatim>\<open>GenerateFromPassword\<close>
  and \<^verbatim>\<open>CompareHashAndPassword\<close>.\<close>

lemma length_fake_Hash:
  "length (fake_Hash x) = 7 + length (hashed_salt x) + length (hashed_hash x)"
  by (simp add: fake_Hash_def)

lemma fake_hashed_decode_Hash:
  "length (hashed_salt x) = 22 \<Longrightarrow> hashed_cost x = 10 \<Longrightarrow> fake_hashed_decode (fake_Hash x) = Inr x"
  by (simp add: fake_hashed_decode_def fake_Hash_def)




lemma fake_Compare:
  assumes "length salt = 22"
  shows "CompareHashAndPassword fake_ext (fake_Hash (fake_hashed salt x)) a
           = (if key_stream a = key_stream x then None
              else Some ErrMismatchedHashAndPassword)"
proof -
  let ?x = "fake_hashed salt x"
  have len: "\<not> length (fake_Hash ?x) < minHashSize"
    using assms by (simp add: length_fake_Hash fake_hashed_def length_key_stream minHashSize_def)
  have dec: "hashed_decode fake_ext (fake_Hash ?x) = Inr ?x"
    using assms by (simp add: fake_ext_def fake_hashed_decode_Hash fake_hashed_def DefaultCost_def)
  have other: "bcrypt fake_ext a (hashed_cost ?x) (hashed_salt ?x) = Inr (key_stream a)"
    by (simp add: bcrypt_def fake_ext_def fake_cipher_def)
  have "hashed_Hash fake_ext ?x = hashed_Hash fake_ext (?x\<lparr>hashed_hash := key_stream a\<rparr>)
          \<longleftrightarrow> key_stream a = key_stream x"
    by (auto simp: fake_ext_def fake_Hash_def fake_hashed_def)
  with len dec other show ?thesis
    by (simp add: CompareHashAndPassword_def newFromHash_def Let_def)
qed

lemma fake_salt_length: "length fake_salt = 22"
  by (simp add: fake_salt_def)

lemma fake_compare:
  "CompareHashAndPassword fake_ext (fake_hash x) a = None
     \<longleftrightarrow> key_stream a = key_stream x"
  by (simp add: fake_hash_def fake_Compare [OF fake_salt_length])

lemma secret1_digest:
  "key_stream ''secret2'' \<noteq> key_stream ''secret1''"
  "key_stream ''wrong-password'' \<noteq> key_stream ''secret1''"
  by code_simp+

text \<open>Alice's password and Alice's token.\<close>

lemma alice_CheckPassword:
  "CheckPassword fake_ext alice ''secret1''"
  "\<not> CheckPassword fake_ext alice ''wrong-password''"
  "\<not> CheckPassword fake_ext alice ''secret2''"
  by (simp_all add: CheckPassword_def alice_def fake_compare secret1_digest)

lemma alice_GenerateToken:
  "GenerateToken fake_ext j now (ID alice) (Email alice) (Role alice) = Inr (alice_token j now)"
  by (simp add: fake_GenerateToken alice_token_def alice_claims_def)









section \<open>Lists related element by element\<close>






section \<open>Rows and accounts up to the hash\<close>








section \<open>The repository on two tables with the same accounts\<close>










section \<open>Replies on two tables with the same accounts\<close>








section \<open>Creating an account on two tables with the same accounts\<close>





section \<open>Creating an account with two hashes of the password\<close>









section \<open>Updating an account on two tables with the same accounts\<close>













section \<open>The login response\<close>

text \<open>
  Claim C1 asks that the body of a successful login holds the issued token under the key
  \<^verbatim>\<open>token\<close>, next to the identity of the account. The handler serialises
  \<^verbatim>\<open>output.User\<close> and drops \<^verbatim>\<open>output.Token\<close>: for Alice, who authenticates and is
  issued a token, the body is her account and has no member \<^verbatim>\<open>token\<close>.
\<close>

theorem Login_reply_has_no_token:
  "AuthenticateUser fake_ext day_service half_past_ten
      \<lparr>auth_Email = login_Email alice_login, auth_Password = login_Password alice_login\<rparr>
      (table_of [alice])
     = Inr \<lparr>out_User = alice, Token = alice_token day_service half_past_ten\<rparr>
   \<and> Login fake_ext day_service half_past_ten
        (Inr alice_login) (table_of [alice])
     = JSON 200 (User_json alice)
   \<and> json_field ''token'' (User_json alice) = None"
proof -
  let ?ext = fake_ext
  have found: "Repo_GetByEmail ''alice@example.com'' (table_of [alice]) = Inr alice"
    using Repo_GetByEmail_single [of alice] by (simp add: alice_def)
  have pw: "CheckPassword ?ext alice ''secret1''"
    by (rule alice_CheckPassword)
  have tok: "GenerateToken ?ext day_service half_past_ten (ID alice) (Email alice) (Role alice)
      = Inr (alice_token day_service half_past_ten)"
    by (rule alice_GenerateToken)
  have active: "IsActive alice" by (simp add: alice_def)
  have auth: "AuthenticateUser ?ext day_service half_past_ten
      \<lparr>auth_Email = login_Email alice_login, auth_Password = login_Password alice_login\<rparr>
      (table_of [alice]) = Inr \<lparr>out_User = alice, Token = alice_token day_service half_past_ten\<rparr>"
    using found pw tok active
    by (simp add: AuthenticateUser_def alice_login_def IsActiveUser_def)
  then have "Login ?ext day_service half_past_ten (Inr alice_login) (table_of [alice])
      = JSON 200 (User_json alice)"
    by (simp add: Login_def StatusOK_def)
  moreover have "json_field ''token'' (User_json alice) = None"
    by (simp add: User_json_def)
  ultimately show ?thesis using auth by simp
qed

section \<open>Issuing and validating a token\<close>




section \<open>The two ways a token is refused\<close>

text \<open>
  Claim C3. For every token text, \<^verbatim>\<open>ValidateToken\<close> fails with \<open>ErrExpiredToken\<close> exactly
  when the token decodes, its signature verifies under the secret, and its expiry is
  present and not after the current instant; a token that does not decode or whose
  signature does not verify (malformed, unusable signing method, wrong secret) fails
  with \<open>ErrInvalidToken\<close>; every failure is one of the two, and the two are different
  values.
\<close>

theorem ValidateToken_failures:
  "(ValidateToken ext j now tok = Inl ErrExpiredToken
      \<longleftrightarrow> (\<exists>claims e. jwt_decode_verify ext tok (secretKey j) = Inr claims
                       \<and> ExpiresAt claims = Some e \<and> e \<le> now))
   \<and> (\<forall>failure. jwt_decode_verify ext tok (secretKey j) = Inl failure
         \<longrightarrow> ValidateToken ext j now tok = Inl ErrInvalidToken)
   \<and> (\<forall>err. ValidateToken ext j now tok = Inl err
         \<longrightarrow> err = ErrExpiredToken \<or> err = ErrInvalidToken)
   \<and> ErrExpiredToken \<noteq> ErrInvalidToken"
  by (auto simp: ValidateToken_def ParseWithClaims_def Validator_Validate_def Let_def
        verifyExpiresAt_def verifyNotBefore_def jwt_errors_Is_def
      split: sum.splits parse_failure.splits option.splits if_splits)

text \<open>An expired token, the same token under another secret, and a text that is no token.\<close>

theorem ValidateToken_failures_witness:
  "ValidateToken fake_ext brief_service half_past_ten (alice_token brief_service half_past_ten)
     = Inl ErrExpiredToken
   \<and> ValidateToken fake_ext (NewJWTService ''another-secret'' 100000000) half_past_ten
        (alice_token brief_service half_past_ten) = Inl ErrInvalidToken
   \<and> ValidateToken fake_ext brief_service half_past_ten ''garbage'' = Inl ErrInvalidToken"
proof -
  let ?tok = "alice_token brief_service half_past_ten"
  have "jwt_decode_verify fake_ext ?tok (secretKey brief_service)
          = Inr (alice_claims brief_service half_past_ten)
        \<and> ExpiresAt (alice_claims brief_service half_past_ten) = Some 10000000000
        \<and> (10000000000::int) \<le> half_past_ten"
    by (simp add: alice_token_def fake_jwt_decode_verify)
       (simp add: brief_service_def NewJWTService_def alice_claims_def newClaims_def
        NewNumericDate_def second_def half_past_ten_def)
  then have 1: "ValidateToken fake_ext brief_service half_past_ten ?tok = Inl ErrExpiredToken"
    using ValidateToken_failures [of fake_ext brief_service half_past_ten ?tok] by blast
  have "jwt_decode_verify fake_ext ?tok (secretKey (NewJWTService ''another-secret'' 100000000))
          = Inl SignatureInvalid"
    by (simp add: alice_token_def fake_jwt_decode_verify brief_service_def NewJWTService_def)
  then have 2: "ValidateToken fake_ext (NewJWTService ''another-secret'' 100000000) half_past_ten
      ?tok = Inl ErrInvalidToken"
    using ValidateToken_failures [of fake_ext "NewJWTService ''another-secret'' 100000000"
        half_past_ten ?tok] by blast
  have "jwt_decode_verify fake_ext ''garbage'' (secretKey brief_service) = Inl Malformed"
    by (simp add: fake_ext_def fake_decode_verify_def eval_nat_numeral fake_unfield_def)
  then have 3: "ValidateToken fake_ext brief_service half_past_ten ''garbage'' = Inl ErrInvalidToken"
    using ValidateToken_failures [of fake_ext brief_service half_past_ten "''garbage''"] by blast
  show ?thesis by (intro conjI 1 2 3)
qed

section \<open>Authentication\<close>

text \<open>
  Claim C4. \<^verbatim>\<open>AuthenticateUser\<close> returns \<open>ErrInvalidPassword\<close> when the repository finds no
  account with the email (no row of a reachable table has it), and the same error when
  the account is active and the password does not match; it returns the different error
  \<open>ErrUserDeactivated\<close> when the account is not active, whatever the password, since the
  active flag is tested first; when the account is active, the password matches and a
  token is issued for the account's id, email and role, it returns the account and that
  token, and every success is of this kind.
\<close>

theorem AuthenticateUser_outcomes:
  "(Repo_GetByEmail (auth_Email input) db = Inl ErrUserNotFound \<longrightarrow>
      AuthenticateUser ext j now input db = Inl ErrInvalidPassword)
   \<and> (online db \<and> auth_Email input \<notin> set (map db_Email (rows db)) \<longrightarrow>
      AuthenticateUser ext j now input db = Inl ErrInvalidPassword)
   \<and> (\<forall>u. Repo_GetByEmail (auth_Email input) db = Inr u \<and> IsActive u
           \<and> \<not> CheckPassword ext u (auth_Password input) \<longrightarrow>
      AuthenticateUser ext j now input db = Inl ErrInvalidPassword)
   \<and> (\<forall>u. Repo_GetByEmail (auth_Email input) db = Inr u \<and> \<not> IsActive u \<longrightarrow>
      AuthenticateUser ext j now input db = Inl ErrUserDeactivated)
   \<and> (\<forall>u token. Repo_GetByEmail (auth_Email input) db = Inr u \<and> IsActive u
           \<and> CheckPassword ext u (auth_Password input)
           \<and> GenerateToken ext j now (ID u) (Email u) (Role u) = Inr token \<longrightarrow>
      AuthenticateUser ext j now input db = Inr \<lparr>out_User = u, Token = token\<rparr>)
   \<and> (\<forall>out. AuthenticateUser ext j now input db = Inr out \<longrightarrow>
      Repo_GetByEmail (auth_Email input) db = Inr (out_User out)
      \<and> GenerateToken ext j now (ID (out_User out)) (Email (out_User out)) (Role (out_User out))
          = Inr (Token out))
   \<and> ErrInvalidPassword \<noteq> ErrUserDeactivated"
proof -
  have absent: "Repo_GetByEmail (auth_Email input) db = Inl ErrUserNotFound"
    if "online db" "auth_Email input \<notin> set (map db_Email (rows db))"
    using that by (rule Repo_GetByEmail_absent)
  show ?thesis
    using absent
    by (auto simp: AuthenticateUser_def IsActiveUser_def split: sum.splits if_splits)
qed

text \<open>An unknown email, a wrong password, a deactivated account with the right and with a
  wrong password, and a successful login.\<close>

theorem AuthenticateUser_outcomes_witness:
  "AuthenticateUser fake_ext day_service half_past_ten
      (login_input ''nobody@example.com'' ''secret1'') (table_of [alice]) = Inl ErrInvalidPassword
   \<and> AuthenticateUser fake_ext day_service half_past_ten
      (login_input ''alice@example.com'' ''wrong-password'') (table_of [alice]) = Inl ErrInvalidPassword
   \<and> AuthenticateUser fake_ext day_service half_past_ten
      (login_input ''alice@example.com'' ''secret1'') (table_of [deactivated_alice])
        = Inl ErrUserDeactivated
   \<and> AuthenticateUser fake_ext day_service half_past_ten
      (login_input ''alice@example.com'' ''wrong-password'') (table_of [deactivated_alice])
        = Inl ErrUserDeactivated
   \<and> AuthenticateUser fake_ext day_service half_past_ten
      (login_input ''alice@example.com'' ''secret1'') (table_of [alice])
        = Inr \<lparr>out_User = alice, Token = alice_token day_service half_past_ten\<rparr>"
proof -
  let ?ext = fake_ext
  let ?j = day_service and ?now = half_past_ten
  note T = AuthenticateUser_outcomes [of _ _ ?ext ?j ?now]
  have mail: "Email alice = ''alice@example.com''" "Email deactivated_alice = ''alice@example.com''"
    by (simp_all add: alice_def deactivated_alice_def Deactivate_def)
  have found: "Repo_GetByEmail ''alice@example.com'' (table_of [alice]) = Inr alice"
    "Repo_GetByEmail ''alice@example.com'' (table_of [deactivated_alice]) = Inr deactivated_alice"
    using Repo_GetByEmail_single [of alice] Repo_GetByEmail_single [of deactivated_alice]
    by (simp_all add: mail)
  have active: "IsActive alice" "\<not> IsActive deactivated_alice"
    by (simp_all add: alice_def deactivated_alice_def Deactivate_def)
  have pw: "CheckPassword ?ext alice ''secret1''" "\<not> CheckPassword ?ext alice ''wrong-password''"
    by (rule alice_CheckPassword)+
  have tok: "GenerateToken ?ext ?j ?now (ID alice) (Email alice) (Role alice)
      = Inr (alice_token day_service half_past_ten)"
    by (rule alice_GenerateToken)
  have absent: "online (table_of [alice])
      \<and> ''nobody@example.com'' \<notin> set (map db_Email (rows (table_of [alice])))"
    by (simp add: table_of_def row_of_def alice_def)
  have 1: "AuthenticateUser ?ext ?j ?now (login_input ''nobody@example.com'' ''secret1'')
      (table_of [alice]) = Inl ErrInvalidPassword"
    using T [of "login_input ''nobody@example.com'' ''secret1''" "table_of [alice]"] absent
    by (simp add: login_input_def)
  have 2: "AuthenticateUser ?ext ?j ?now (login_input ''alice@example.com'' ''wrong-password'')
      (table_of [alice]) = Inl ErrInvalidPassword"
    using T [of "login_input ''alice@example.com'' ''wrong-password''" "table_of [alice]"]
      found active pw
    by (simp add: login_input_def)
  have 3: "AuthenticateUser ?ext ?j ?now (login_input ''alice@example.com'' pw)
      (table_of [deactivated_alice]) = Inl ErrUserDeactivated" for pw
    using T [of "login_input ''alice@example.com'' pw" "table_of [deactivated_alice]"]
      found active
    by (simp add: login_input_def)
  have 4: "AuthenticateUser ?ext ?j ?now (login_input ''alice@example.com'' ''secret1'')
      (table_of [alice]) = Inr \<lparr>out_User = alice, Token = alice_token day_service half_past_ten\<rparr>"
    using T [of "login_input ''alice@example.com'' ''secret1''" "table_of [alice]"]
      found active pw tok
    by (simp add: login_input_def)
  show ?thesis by (intro conjI 1 2 3 4)
qed

section \<open>Checking a password against a stored hash\<close>




section \<open>Hashing a password and checking it\<close>




section \<open>The authentication middleware\<close>



section \<open>The role gate\<close>




section \<open>The password hash stays inside\<close>



section \<open>A created account is active\<close>




end
